theory Spec2Isabelle
  imports Main
begin

section \<open>The transcript fetch-and-save script (example.py)\<close>

text \<open>
  The script is a straight-line call chain over an external captions library. The library
  is not part of the repository, so its answers are parameters of the model: a record of
  the three calls the script makes. Everything the script itself does (materialising the
  sequence, the singleton test, the subscript, the dictionary lookups, the join, opening
  and writing the file) is modelled step by step, in the order in which Python evaluates
  it. Every step that can raise returns a sum; every step with an effect takes the world
  and returns it updated.

  The script is modelled at two levels. \<open>example\<close> is the script at the level of
  text: the content of a file is the text handed to \<open>write\<close>, and opening the file
  for writing succeeds. \<open>example_in\<close> is the script in its runtime environment: the
  call \<open>open("video_transcript.txt", "w")\<close> names no encoding, so the bytes that reach
  the file are the text in the preferred encoding of the environment, the write raises
  when that encoding cannot express the text, and the system may refuse to open the file.
  In an environment that opens every file and stores text as it is, the two coincide.
  A character stands for a code point below 256, and a transcript sequence is finite.
\<close>

subsection \<open>Data\<close>

type_synonym path = string

text \<open>
  What a run can raise: a failure of the collaborator, carried unchanged, one of the
  three Python errors that the script's own expressions can raise
  (\<open>transcripts[0]\<close>, \<open>x['text']\<close>, \<open>' '.join(...)\<close>), or one of the two
  errors of the file operations (\<open>open\<close> refused by the system, \<open>write\<close> given
  a text that the encoding of the file cannot express).
\<close>

datatype 'e exn =
  Raised 'e | IndexError | KeyError string | TypeError | OSError | UnicodeEncodeError

text \<open>A Python value stored in a caption entry: a \<open>str\<close>, or anything else.\<close>

datatype 'v pyval = PyStr string | PyOther 'v

text \<open>A caption entry is a \<open>dict\<close> keyed by strings.\<close>

type_synonym 'v entry = "string \<rightharpoonup> 'v pyval"

text \<open>
  The object returned by \<open>ytt_api.list\<close>: an iterable whose enumeration yields
  transcript descriptors one at a time and ends either by exhaustion or by raising.
\<close>

datatype ('e, 't) transcript_seq =
    Exhausted
  | Yield 't "('e, 't) transcript_seq"
  | Fails 'e

text \<open>The collaborator: the three library calls of the script.\<close>

record ('e, 't, 'f, 'v) collaborator =
  ytt_list :: "string \<Rightarrow> 'e + ('e, 't) transcript_seq"
  fetch :: "'t \<Rightarrow> 'e + 'f"
  to_raw_data :: "'f \<Rightarrow> 'e + 'v entry list"

text \<open>The observable actions of a run, in the order in which they happen.\<close>

datatype 't event =
    ListCall string
  | Enumerated 't
  | FetchCall 't
  | ToRawDataCall
  | OpenW path
  | WriteCall path string
  | CloseCall path

text \<open>The world: the file system (path to text content) and the log of actions.\<close>

record 't world =
  files :: "path \<rightharpoonup> string"
  calls :: "'t event list"

definition emit :: "'t event \<Rightarrow> 't world \<Rightarrow> 't world" where
  "emit ev w = w\<lparr>calls := calls w @ [ev]\<rparr>"

subsection \<open>Sequencing\<close>

text \<open>
  A step is a function from the world to a result and a new world. \<open>then_do\<close> runs a
  step and hands its value to the rest of the script; a raised error skips the rest, as an
  uncaught Python exception does.
\<close>

type_synonym ('e, 't, 'a) step = "'t world \<Rightarrow> ('e exn + 'a) \<times> 't world"

definition then_do ::
  "('e exn + 'a) \<times> 't world \<Rightarrow> ('a \<Rightarrow> ('e, 't, 'b) step) \<Rightarrow> ('e exn + 'b) \<times> 't world" where
  "then_do m k = (case m of (Inl e, w) \<Rightarrow> (Inl e, w) | (Inr a, w) \<Rightarrow> k a w)"

subsection \<open>The steps of the script\<close>

definition VIDEO_ID :: string where
  "VIDEO_ID = ''sa-ASdF1234''"

definition video_transcript_txt :: path where
  "video_transcript_txt = ''video_transcript.txt''"

text \<open>Line 14: \<open>transcript_list = ytt_api.list(VIDEO_ID)\<close>.\<close>

definition call_list ::
  "('e, 't, 'f, 'v) collaborator \<Rightarrow> string \<Rightarrow> ('e, 't, ('e, 't) transcript_seq) step" where
  "call_list ytt_api vid w =
     (case ytt_list ytt_api vid of
        Inl e \<Rightarrow> (Inl (Raised e), emit (ListCall vid) w)
      | Inr transcript_list \<Rightarrow> (Inr transcript_list, emit (ListCall vid) w))"

text \<open>
  Line 16: \<open>transcripts = [x for x in transcript_list]\<close>. The comprehension asks the
  sequence for one element after the other until it is exhausted; each element produced
  is an action of the run.
\<close>

fun consume :: "('e, 't) transcript_seq \<Rightarrow> ('e, 't, 't list) step" where
  "consume Exhausted w = (Inr [], w)"
| "consume (Fails e) w = (Inl (Raised e), w)"
| "consume (Yield x rest) w =
     (case consume rest (emit (Enumerated x) w) of
        (Inl e, w') \<Rightarrow> (Inl e, w')
      | (Inr xs, w') \<Rightarrow> (Inr (x # xs), w'))"

text \<open>Python's \<open>xs[i]\<close> for a non-negative index: IndexError out of range.\<close>

definition subscript :: "'a list \<Rightarrow> nat \<Rightarrow> 'e exn + 'a" where
  "subscript xs i = (if i < length xs then Inr (xs ! i) else Inl IndexError)"

text \<open>
  Line 17: \<open>transcript = transcripts[0] if len(transcripts) == 1 else None\<close>. The
  condition is evaluated first, the subscript only when it holds.
\<close>

definition select :: "'t list \<Rightarrow> 'e exn + 't option" where
  "select transcripts =
     (if length transcripts = 1
      then (case subscript transcripts 0 of Inl e \<Rightarrow> Inl e | Inr t \<Rightarrow> Inr (Some t))
      else Inr None)"

text \<open>Line 19: \<open>my_ts = transcript.fetch()\<close>.\<close>

definition call_fetch :: "('e, 't, 'f, 'v) collaborator \<Rightarrow> 't \<Rightarrow> ('e, 't, 'f) step" where
  "call_fetch ytt_api transcript w =
     (case fetch ytt_api transcript of
        Inl e \<Rightarrow> (Inl (Raised e), emit (FetchCall transcript) w)
      | Inr my_ts \<Rightarrow> (Inr my_ts, emit (FetchCall transcript) w))"

text \<open>Line 20: \<open>my_ts_l = my_ts.to_raw_data()\<close>.\<close>

definition call_to_raw_data ::
  "('e, 't, 'f, 'v) collaborator \<Rightarrow> 'f \<Rightarrow> ('e, 't, 'v entry list) step" where
  "call_to_raw_data ytt_api my_ts w =
     (case to_raw_data ytt_api my_ts of
        Inl e \<Rightarrow> (Inl (Raised e), emit ToRawDataCall w)
      | Inr my_ts_l \<Rightarrow> (Inr my_ts_l, emit ToRawDataCall w))"

text \<open>
  Line 22, innermost: \<open>[x['text'] for x in my_ts_l]\<close>. A dictionary without the key
  raises KeyError at the first such entry.
\<close>

fun texts :: "'v entry list \<Rightarrow> 'e exn + 'v pyval list" where
  "texts [] = Inr []"
| "texts (x # xs) =
     (case x ''text'' of
        None \<Rightarrow> Inl (KeyError ''text'')
      | Some v \<Rightarrow> (case texts xs of Inl e \<Rightarrow> Inl e | Inr vs \<Rightarrow> Inr (v # vs)))"

text \<open>
  Line 22: \<open>sep.join(items)\<close>. Python raises TypeError when an item is not a
  \<open>str\<close>; otherwise the items are concatenated with \<open>sep\<close> between neighbours.
\<close>

fun join :: "string \<Rightarrow> 'v pyval list \<Rightarrow> 'e exn + string" where
  "join sep [] = Inr []"
| "join sep (PyOther v # vs) = Inl TypeError"
| "join sep [PyStr s] = Inr s"
| "join sep (PyStr s # vs) =
     (case join sep vs of Inl e \<Rightarrow> Inl e | Inr r \<Rightarrow> Inr (s @ sep @ r))"

text \<open>
  Line 21: \<open>open("video_transcript.txt", "w")\<close> creates the file or truncates it to
  the empty text.
\<close>

definition open_w :: "path \<Rightarrow> 't world \<Rightarrow> 't world" where
  "open_w p w = emit (OpenW p) (w\<lparr>files := (files w)(p \<mapsto> [])\<rparr>)"

text \<open>
  \<open>f.write(s)\<close> puts \<open>s\<close> behind what the handle has written so far, that is,
  behind the content the file has since it was opened.
\<close>

definition f_write :: "path \<Rightarrow> string \<Rightarrow> 't world \<Rightarrow> 't world" where
  "f_write p s w =
     emit (WriteCall p s)
       (w\<lparr>files := (files w)(p \<mapsto> (case files w p of None \<Rightarrow> s | Some old \<Rightarrow> old @ s))\<rparr>)"

definition f_close :: "path \<Rightarrow> 't world \<Rightarrow> 't world" where
  "f_close p w = emit (CloseCall p) w"

text \<open>
  Lines 21-22: the \<open>with\<close> block. The file is opened first; the argument of
  \<open>f.write\<close> (the comprehension, then the join) is evaluated inside the block; the
  file is closed on the way out, also when the argument raised.
\<close>

definition save :: "'v entry list \<Rightarrow> ('e, 't, unit) step" where
  "save my_ts_l w =
     (let w1 = open_w video_transcript_txt w in
      case texts my_ts_l of
        Inl e \<Rightarrow> (Inl e, f_close video_transcript_txt w1)
      | Inr vs \<Rightarrow>
          (case join '' '' vs of
             Inl e \<Rightarrow> (Inl e, f_close video_transcript_txt w1)
           | Inr s \<Rightarrow> (Inr (), f_close video_transcript_txt (f_write video_transcript_txt s w1))))"

subsection \<open>The script\<close>

definition example :: "('e, 't, 'f, 'v) collaborator \<Rightarrow> ('e, 't, unit) step" where
  "example ytt_api w =
     then_do (call_list ytt_api VIDEO_ID w) (\<lambda>transcript_list w.
     then_do (consume transcript_list w) (\<lambda>transcripts w.
     then_do (select transcripts, w) (\<lambda>transcript w.
       case transcript of
         None \<Rightarrow> (Inr (), w)
       | Some transcript \<Rightarrow>
           then_do (call_fetch ytt_api transcript w) (\<lambda>my_ts w.
           then_do (call_to_raw_data ytt_api my_ts w) (\<lambda>my_ts_l w.
             save my_ts_l w)))))"

subsection \<open>The script in its runtime environment\<close>

text \<open>
  What the script takes from the process it runs in: whether the system lets it open a
  path for writing, and the preferred encoding, a function from a text to its bytes that
  is undefined where the encoding cannot express the text.
\<close>

record environment =
  openable :: "path \<Rightarrow> bool"
  encoding :: "string \<Rightarrow> string option"

text \<open>
  Line 21 in an environment: \<open>open(p, "w")\<close> raises when the system refuses, and
  creates or truncates the file otherwise.
\<close>

definition open_in :: "environment \<Rightarrow> path \<Rightarrow> ('e, 't, unit) step" where
  "open_in env p w =
     (if openable env p then (Inr (), open_w p w) else (Inl OSError, emit (OpenW p) w))"

text \<open>
  \<open>f.write(s)\<close> in an environment: the text is encoded, and the bytes are put behind
  what the handle has written since the file was opened; a text that the encoding cannot
  express raises and writes nothing.
\<close>

definition write_in :: "environment \<Rightarrow> path \<Rightarrow> string \<Rightarrow> ('e, 't, unit) step" where
  "write_in env p s w =
     (case encoding env s of
        None \<Rightarrow> (Inl UnicodeEncodeError, emit (WriteCall p s) w)
      | Some bytes \<Rightarrow>
          (Inr (), emit (WriteCall p s)
             (w\<lparr>files := (files w)(p \<mapsto>
                (case files w p of None \<Rightarrow> bytes | Some old \<Rightarrow> old @ bytes))\<rparr>)))"

text \<open>
  Lines 21-22 in an environment. When \<open>open\<close> raises, the block is not entered and
  nothing is closed; once the file is open it is closed on every way out.
\<close>

definition save_in :: "environment \<Rightarrow> 'v entry list \<Rightarrow> ('e, 't, unit) step" where
  "save_in env my_ts_l w =
     (case open_in env video_transcript_txt w of
        (Inl e, w1) \<Rightarrow> (Inl e, w1)
      | (Inr f, w1) \<Rightarrow>
          (case texts my_ts_l of
             Inl e \<Rightarrow> (Inl e, f_close video_transcript_txt w1)
           | Inr vs \<Rightarrow>
               (case join '' '' vs of
                  Inl e \<Rightarrow> (Inl e, f_close video_transcript_txt w1)
                | Inr s \<Rightarrow>
                    (case write_in env video_transcript_txt s w1 of
                       (Inl e, w2) \<Rightarrow> (Inl e, f_close video_transcript_txt w2)
                     | (Inr u, w2) \<Rightarrow> (Inr (), f_close video_transcript_txt w2)))))"

definition example_in ::
  "environment \<Rightarrow> ('e, 't, 'f, 'v) collaborator \<Rightarrow> ('e, 't, unit) step" where
  "example_in env ytt_api w =
     then_do (call_list ytt_api VIDEO_ID w) (\<lambda>transcript_list w.
     then_do (consume transcript_list w) (\<lambda>transcripts w.
     then_do (select transcripts, w) (\<lambda>transcript w.
       case transcript of
         None \<Rightarrow> (Inr (), w)
       | Some transcript \<Rightarrow>
           then_do (call_fetch ytt_api transcript w) (\<lambda>my_ts w.
           then_do (call_to_raw_data ytt_api my_ts w) (\<lambda>my_ts_l w.
             save_in env my_ts_l w)))))"



definition latin_1 :: "string \<Rightarrow> string option" where
  "latin_1 s = Some s"


text \<open>An environment that opens every path and prefers the given encoding.\<close>

definition locale_of :: "(string \<Rightarrow> string option) \<Rightarrow> environment" where
  "locale_of enc = \<lparr>openable = (\<lambda>_. True), encoding = enc\<rparr>"

subsection \<open>Vocabulary for stating properties\<close>

text \<open>The elements a sequence yields, and the failure that ends it, if any.\<close>

fun items :: "('e, 't) transcript_seq \<Rightarrow> 't list" where
  "items Exhausted = []"
| "items (Fails e) = []"
| "items (Yield x rest) = x # items rest"

fun failure :: "('e, 't) transcript_seq \<Rightarrow> 'e option" where
  "failure Exhausted = None"
| "failure (Fails e) = Some e"
| "failure (Yield x rest) = failure rest"

text \<open>The actions a run adds to the log of the world it started in.\<close>

definition actions :: "('e, 't, 'a) step \<Rightarrow> 't world \<Rightarrow> 't event list" where
  "actions m w = drop (length (calls w)) (calls (snd (m w)))"

text \<open>
  The world after the list call and the enumeration of the whole sequence: nothing but the
  log has changed.
\<close>

definition after_list :: "('e, 't) transcript_seq \<Rightarrow> 't world \<Rightarrow> 't world" where
  "after_list l w = w\<lparr>calls := calls w @ ListCall VIDEO_ID # map Enumerated (items l)\<rparr>"

text \<open>The world in which the \<open>with\<close> block starts, for a selected transcript \<open>t\<close>.\<close>

definition before_save :: "('e, 't) transcript_seq \<Rightarrow> 't \<Rightarrow> 't world \<Rightarrow> 't world" where
  "before_save l t w = emit ToRawDataCall (emit (FetchCall t) (after_list l w))"

text \<open>
  The join as the specification words it: the texts in sequence order, with exactly one
  space at each boundary between two neighbours, and nothing before, behind or inside.
\<close>

definition spaced :: "string list \<Rightarrow> string" where
  "spaced ts = (case ts of [] \<Rightarrow> [] | t # rest \<Rightarrow> t @ concat (map (\<lambda>s. CHR '' '' # s) rest))"

text \<open>Where the \<open>i\<close>-th text starts in the joined text.\<close>

definition offset :: "string list \<Rightarrow> nat \<Rightarrow> nat" where
  "offset ts i = sum_list (map length (take i ts)) + i"

text \<open>The entries carry the texts \<open>ts\<close>, in this order, under the key \<open>text\<close>.\<close>

definition carries :: "'v entry list \<Rightarrow> string list \<Rightarrow> bool" where
  "carries es ts = (map (\<lambda>x. x ''text'') es = map (\<lambda>s. Some (PyStr s)) ts)"


text \<open>A collaborator that gives the same three answers whatever it is asked.\<close>

definition scripted ::
  "'e + ('e, 't) transcript_seq \<Rightarrow> 'e + 'f \<Rightarrow> 'e + 'v entry list \<Rightarrow> ('e, 't, 'f, 'v) collaborator" where
  "scripted l f d = \<lparr>ytt_list = (\<lambda>_. l), fetch = (\<lambda>_. f), to_raw_data = (\<lambda>_. d)\<rparr>"

definition hello_world :: "nat entry list" where
  "hello_world =
     [[''text'' \<mapsto> PyStr ''Hello'', ''start'' \<mapsto> PyOther 0, ''duration'' \<mapsto> PyOther 2],
      [''text'' \<mapsto> PyStr ''world'', ''start'' \<mapsto> PyOther 2, ''duration'' \<mapsto> PyOther 1]]"



definition fresh :: "nat world" where
  "fresh = \<lparr>files = Map.empty, calls = []\<rparr>"

definition stale :: "nat world" where
  "stale = \<lparr>files = [video_transcript_txt \<mapsto> ''old text''], calls = []\<rparr>"

section \<open>Properties\<close>

subsection \<open>Closed forms of the steps\<close>

lemma consume_eq:
  "consume l w =
     ((case failure l of None \<Rightarrow> Inr (items l) | Some e \<Rightarrow> Inl (Raised e)),
      w\<lparr>calls := calls w @ map Enumerated (items l)\<rparr>)"
proof (induction l arbitrary: w)
  case Exhausted
  show ?case by simp
next
  case (Fails e)
  show ?case by simp
next
  case (Yield x rest)
  show ?case
    by (simp add: Yield.IH emit_def split: option.splits)
qed

lemma select_eq: "select ts = Inr (case ts of [t] \<Rightarrow> Some t | _ \<Rightarrow> None)"
  by (cases ts; cases "tl ts") (auto simp: select_def subscript_def split: list.splits)

lemma example_eq:
  "example c w =
     (case ytt_list c VIDEO_ID of
        Inl e \<Rightarrow> (Inl (Raised e), emit (ListCall VIDEO_ID) w)
      | Inr l \<Rightarrow>
          (case failure l of
             Some e \<Rightarrow> (Inl (Raised e), after_list l w)
           | None \<Rightarrow>
               (case items l of
                  [t] \<Rightarrow>
                    (case fetch c t of
                       Inl e \<Rightarrow> (Inl (Raised e), emit (FetchCall t) (after_list l w))
                     | Inr f \<Rightarrow>
                         (case to_raw_data c f of
                            Inl e \<Rightarrow> (Inl (Raised e), before_save l t w)
                          | Inr d \<Rightarrow> save d (before_save l t w)))
                | _ \<Rightarrow> (Inr (), after_list l w))))"
  by (auto simp: example_def then_do_def call_list_def consume_eq select_eq call_fetch_def
      call_to_raw_data_def after_list_def before_save_def emit_def
      split: sum.splits option.splits list.splits)

subsection \<open>The comprehension, the join and the \<open>with\<close> block\<close>

lemma texts_carries: "carries es ts \<Longrightarrow> texts es = Inr (map PyStr ts)"
proof (induction es arbitrary: ts)
  case Nil
  then show ?case by (simp add: carries_def)
next
  case (Cons x xs)
  from Cons.prems obtain s rest where ts: "ts = s # rest"
    by (cases ts) (auto simp: carries_def)
  with Cons.prems have hd: "x ''text'' = Some (PyStr s)" and tl: "carries xs rest"
    by (auto simp: carries_def)
  show ?case by (simp add: ts hd Cons.IH [OF tl])
qed

lemma spaced_step: "rest \<noteq> [] \<Longrightarrow> spaced (t # rest) = t @ CHR '' '' # spaced rest"
  by (cases rest) (simp_all add: spaced_def)

lemma join_strs: "join '' '' (map PyStr ts) = Inr (spaced ts)"
proof (induction ts)
  case Nil
  show ?case by (simp add: spaced_def)
next
  case (Cons t rest)
  show ?case
  proof (cases rest)
    case Nil
    then show ?thesis by (simp add: spaced_def)
  next
    case (Cons u us)
    with Cons.IH show ?thesis by (simp add: spaced_def)
  qed
qed

lemma save_carries:
  "carries es ts \<Longrightarrow>
   save es w =
     (Inr (), w\<lparr>files := (files w)(video_transcript_txt \<mapsto> spaced ts),
               calls := calls w @ [OpenW video_transcript_txt,
                 WriteCall video_transcript_txt (spaced ts), CloseCall video_transcript_txt]\<rparr>)"
  by (simp add: save_def texts_carries join_strs open_w_def f_write_def f_close_def emit_def)

lemma save_shape:
  "\<exists>r s. \<forall>w::'t world.
     save es w =
       (r :: 'e exn + unit,
        w\<lparr>files := (files w)(video_transcript_txt \<mapsto> s),
          calls := calls w @ OpenW video_transcript_txt #
            (case r of Inl _ \<Rightarrow> [] | Inr _ \<Rightarrow> [WriteCall video_transcript_txt s]) @
            [CloseCall video_transcript_txt]\<rparr>)"
proof (cases "texts es :: 'e exn + 'a pyval list")
  case (Inl e)
  then show ?thesis
    by (intro exI [of _ "Inl e"] exI [of _ "[]"])
      (simp add: save_def open_w_def f_close_def emit_def)
next
  case (Inr vs)
  note vs = this
  show ?thesis
  proof (cases "join '' '' vs :: 'e exn + string")
    case (Inl e)
    with vs show ?thesis
      by (intro exI [of _ "Inl e"] exI [of _ "[]"])
        (simp add: save_def open_w_def f_close_def emit_def)
  next
    case (Inr s)
    with vs show ?thesis
      by (intro exI [of _ "Inr ()"] exI [of _ s])
        (simp add: save_def open_w_def f_write_def f_close_def emit_def)
  qed
qed

lemma length_spaced: "length (spaced ts) = sum_list (map length ts) + (length ts - 1)"
proof (induction ts)
  case Nil
  show ?case by (simp add: spaced_def)
next
  case (Cons t rest)
  show ?case
  proof (cases "rest = []")
    case True
    then show ?thesis by (simp add: spaced_def)
  next
    case False
    then have "0 < length rest" by simp
    with Cons.IH False show ?thesis by (simp add: spaced_step)
  qed
qed

lemma offset_Suc: "offset (t # rest) (Suc i) = length t + 1 + offset rest i"
  by (simp add: offset_def)

lemma text_at_offset:
  "i < length ts \<Longrightarrow> take (length (ts ! i)) (drop (offset ts i) (spaced ts)) = ts ! i"
proof (induction ts arbitrary: i)
  case Nil
  then show ?case by simp
next
  case (Cons t rest)
  show ?case
  proof (cases i)
    case 0
    then show ?thesis by (cases rest) (simp_all add: offset_def spaced_def)
  next
    case (Suc j)
    with Cons.prems have j: "j < length rest" by simp
    then have ne: "rest \<noteq> []" by auto
    show ?thesis using Cons.IH [OF j] by (simp add: Suc offset_Suc spaced_step [OF ne])
  qed
qed

lemma space_before_offset:
  "i < length ts \<Longrightarrow> 0 < i \<Longrightarrow> spaced ts ! (offset ts i - 1) = CHR '' ''"
proof (induction ts arbitrary: i)
  case Nil
  then show ?case by simp
next
  case (Cons t rest)
  from Cons.prems obtain j where i: "i = Suc j" by (cases i) auto
  with Cons.prems have j: "j < length rest" by simp
  then have ne: "rest \<noteq> []" by auto
  show ?case
  proof (cases j)
    case 0
    then show ?thesis by (simp add: i offset_def spaced_step [OF ne] nth_append)
  next
    case (Suc k)
    have pos: "0 < offset rest j" by (simp add: offset_def Suc)
    have "offset (t # rest) i - 1 = length t + 1 + (offset rest j - 1)"
      using pos by (simp add: i offset_Suc)
    then show ?thesis
      using Cons.IH [OF j] Suc by (simp add: spaced_step [OF ne] nth_append)
  qed
qed

lemma texts_cong:
  "map (\<lambda>x. x ''text'') d1 = map (\<lambda>x. x ''text'') d2 \<Longrightarrow>
   (texts d1 :: 'e exn + 'v pyval list) = texts d2"
proof (induction d1 arbitrary: d2)
  case Nil
  then show ?case by simp
next
  case (Cons x xs)
  then obtain y ys where d2: "d2 = y # ys" by (cases d2) auto
  with Cons.prems have hd: "x ''text'' = y ''text''"
    and tl: "map (\<lambda>x. x ''text'') xs = map (\<lambda>x. x ''text'') ys"
    by simp_all
  have ih: "(texts xs :: 'e exn + 'v pyval list) = texts ys"
    by (rule Cons.IH [OF tl])
  show ?case
    unfolding d2 texts.simps hd ih ..
qed

lemma save_cong:
  "map (\<lambda>x. x ''text'') d1 = map (\<lambda>x. x ''text'') d2 \<Longrightarrow>
   (save d1 w :: ('e exn + unit) \<times> 't world) = save d2 w"
  by (simp add: save_def texts_cong [of d1 d2])

lemma texts_no_IndexError: "texts es \<noteq> Inl IndexError"
  by (induction es) (auto split: option.splits sum.splits)

lemma join_no_IndexError: "join sep vs \<noteq> Inl IndexError"
  by (induction sep vs rule: join.induct) (auto split: sum.splits)

lemma save_no_IndexError: "fst (save es w) \<noteq> Inl IndexError"
  using texts_no_IndexError [of es] join_no_IndexError [of "'' ''"]
  by (auto simp: save_def Let_def split: sum.splits)

lemma actions_after_list:
  "drop (length (calls w)) (calls (after_list l w)) = ListCall VIDEO_ID # map Enumerated (items l)"
  by (simp add: after_list_def)

subsection \<open>The selection rule\<close>

lemma select_iff: "(\<exists>t. (select ts :: 'e exn + 't option) = Inr (Some t)) \<longleftrightarrow> length ts = 1"
  by (cases ts; cases "tl ts") (auto simp: select_eq split: list.splits)

lemma select_single: "length ts = 1 \<Longrightarrow> select ts = Inr (Some (ts ! 0))"
  by (cases ts; cases "tl ts") (auto simp: select_eq split: list.splits)

lemma select_other: "length ts \<noteq> 1 \<Longrightarrow> select ts = Inr None"
  by (cases ts; cases "tl ts") (auto simp: select_eq split: list.splits)

lemma example_not_single:
  "ytt_list c VIDEO_ID = Inr l \<Longrightarrow> failure l = None \<Longrightarrow> length (items l) \<noteq> 1 \<Longrightarrow>
   example c w = (Inr (), after_list l w)"
  by (cases "items l"; cases "tl (items l)") (auto simp: example_eq split: list.splits)

subsection \<open>Runs that reach the \<open>with\<close> block\<close>

lemma example_single_fetched:
  "ytt_list c VIDEO_ID = Inr l \<Longrightarrow> failure l = None \<Longrightarrow> items l = [t] \<Longrightarrow>
   fetch c t = Inr f \<Longrightarrow> to_raw_data c f = Inr es \<Longrightarrow>
   example c w = save es (before_save l t w)"
  by (simp add: example_eq)

lemma calls_before_save:
  "calls (before_save l t w) =
     calls w @ ListCall VIDEO_ID # map Enumerated (items l) @ [FetchCall t, ToRawDataCall]"
  by (simp add: before_save_def after_list_def emit_def)

lemma files_before_save: "files (before_save l t w) = files w"
  by (simp add: before_save_def after_list_def emit_def)

lemma calls_save_extends:
  "\<exists>evs. calls (snd (save es w :: ('e exn + unit) \<times> 't world)) = calls w @ OpenW video_transcript_txt # evs
     \<and> (\<forall>x. Enumerated x \<notin> set evs) \<and> (\<forall>x. FetchCall x \<notin> set evs)"
proof -
  obtain r :: "'e exn + unit" and s where
    "\<forall>w::'t world. save es w = (r, w\<lparr>files := (files w)(video_transcript_txt \<mapsto> s),
       calls := calls w @ OpenW video_transcript_txt #
         (case r of Inl _ \<Rightarrow> [] | Inr _ \<Rightarrow> [WriteCall video_transcript_txt s]) @
         [CloseCall video_transcript_txt]\<rparr>)"
    using save_shape [of es] by blast
  then show ?thesis
    by (cases r) auto
qed

subsection \<open>The script in its runtime environment\<close>

lemma example_in_eq:
  "example_in env c w =
     (case ytt_list c VIDEO_ID of
        Inl e \<Rightarrow> (Inl (Raised e), emit (ListCall VIDEO_ID) w)
      | Inr l \<Rightarrow>
          (case failure l of
             Some e \<Rightarrow> (Inl (Raised e), after_list l w)
           | None \<Rightarrow>
               (case items l of
                  [t] \<Rightarrow>
                    (case fetch c t of
                       Inl e \<Rightarrow> (Inl (Raised e), emit (FetchCall t) (after_list l w))
                     | Inr f \<Rightarrow>
                         (case to_raw_data c f of
                            Inl e \<Rightarrow> (Inl (Raised e), before_save l t w)
                          | Inr d \<Rightarrow> save_in env d (before_save l t w)))
                | _ \<Rightarrow> (Inr (), after_list l w))))"
  by (auto simp: example_in_def then_do_def call_list_def consume_eq select_eq call_fetch_def
      call_to_raw_data_def after_list_def before_save_def emit_def
      split: sum.splits option.splits list.splits)



text \<open>
  In an environment that opens every path and stores text as it is, the script in its
  environment is the script at the level of text.
\<close>

lemma save_in_latin_1: "save_in (locale_of latin_1) es w = save es w"
  by (simp add: save_in_def save_def Let_def open_in_def write_in_def f_write_def locale_of_def
      latin_1_def split: sum.splits)

lemma example_in_latin_1: "example_in (locale_of latin_1) c w = example c w"
  by (simp add: example_in_eq example_eq save_in_latin_1
      split: sum.splits option.splits list.splits)








section \<open>The claims\<close>

text \<open>
  C8. The subscript \<open>transcripts[0]\<close> is only reached when the list has exactly one
  element, so it is in bounds for every materialised list: the selection never raises, and
  no run of the script ends in an IndexError.
\<close>

theorem C8_subscript_in_bounds:
  fixes c :: "('e, 't, 'f, 'v) collaborator" and ts :: "'t list"
  shows "(\<forall>e. (select ts :: 'e exn + 't option) \<noteq> Inl e) \<and> fst (example c w) \<noteq> Inl IndexError"
  using save_no_IndexError
  by (auto simp: select_eq example_eq split: sum.splits option.splits list.splits)

text \<open>
  C1. For every materialised transcript list the selection rule picks a transcript if and
  only if the list has exactly one element, and then it picks that element. In a run whose
  list has one element the selected transcript is fetched; in a run whose list has no
  element or more than one, the script ends normally after the enumeration: no fetch, no
  open, no write, and the files are as before.
\<close>

theorem C1_singleton_selection:
  fixes c :: "('e, 't, 'f, 'v) collaborator" and ts :: "'t list"
  shows "((\<exists>t. (select ts :: 'e exn + 't option) = Inr (Some t)) \<longleftrightarrow> length ts = 1)
    \<and> (length ts = 1 \<longrightarrow> (select ts :: 'e exn + 't option) = Inr (Some (ts ! 0)))
    \<and> (length ts \<noteq> 1 \<longrightarrow> (select ts :: 'e exn + 't option) = Inr None)
    \<and> (ytt_list c VIDEO_ID = Inr l \<and> failure l = None \<and> length (items l) = 1 \<longrightarrow>
          FetchCall (items l ! 0) \<in> set (actions (example c) w))
    \<and> (ytt_list c VIDEO_ID = Inr l \<and> failure l = None \<and> length (items l) \<noteq> 1 \<longrightarrow>
          fst (example c w) = Inr () \<and> files (snd (example c w)) = files w \<and>
          actions (example c) w = ListCall VIDEO_ID # map Enumerated (items l))"
proof -
  have run1: "FetchCall (items l ! 0) \<in> set (actions (example c) w)"
    if l: "ytt_list c VIDEO_ID = Inr l" "failure l = None" and one: "length (items l) = 1"
  proof -
    from one obtain t where t: "items l = [t]"
      by (cases "items l"; cases "tl (items l)") auto
    show ?thesis
    proof (cases "fetch c t")
      case (Inl e)
      with l t show ?thesis
        by (simp add: example_eq actions_def emit_def after_list_def)
    next
      case (Inr f)
      note f = this
      show ?thesis
      proof (cases "to_raw_data c f")
        case (Inl e)
        with l t f show ?thesis
          by (simp add: example_eq actions_def calls_before_save)
      next
        case (Inr es)
        obtain r :: "'e exn + unit" and s where
          "\<forall>w::'t world. save es w = (r, w\<lparr>files := (files w)(video_transcript_txt \<mapsto> s),
             calls := calls w @ OpenW video_transcript_txt #
               (case r of Inl _ \<Rightarrow> [] | Inr _ \<Rightarrow> [WriteCall video_transcript_txt s]) @
               [CloseCall video_transcript_txt]\<rparr>)"
          using save_shape [of es] by blast
        with l t f Inr show ?thesis
          by (simp add: example_eq actions_def calls_before_save)
      qed
    qed
  qed
  have run0: "fst (example c w) = Inr () \<and> files (snd (example c w)) = files w \<and>
      actions (example c) w = ListCall VIDEO_ID # map Enumerated (items l)"
    if "ytt_list c VIDEO_ID = Inr l" "failure l = None" "length (items l) \<noteq> 1"
    using that by (simp add: example_not_single actions_def actions_after_list) (simp add: after_list_def)
  show ?thesis
    using select_iff [of ts] select_single [of ts] select_other [of ts] run0 run1 by blast
qed


theorem C1_singleton_selection_witness:
  "length [7::nat] = 1
   \<and> (select [7::nat] :: string exn + nat option) = Inr (Some 7)
   \<and> FetchCall 7 \<in> set (actions (example (scripted (Inr (Yield 7 Exhausted)) (Inr ()) (Inr hello_world)
         :: (string, nat, unit, nat) collaborator)) fresh)
   \<and> length ([] :: nat list) \<noteq> 1
   \<and> (select ([] :: nat list) :: string exn + nat option) = Inr None
   \<and> actions (example (scripted (Inr (Yield 7 (Yield 8 Exhausted))) (Inr ()) (Inr hello_world)
         :: (string, nat, unit, nat) collaborator)) fresh
       = [ListCall VIDEO_ID, Enumerated 7, Enumerated 8]"
proof -
  let ?one = "scripted (Inr (Yield 7 Exhausted)) (Inr ()) (Inr hello_world)
    :: (string, nat, unit, nat) collaborator"
  let ?two = "scripted (Inr (Yield 7 (Yield 8 Exhausted))) (Inr ()) (Inr hello_world)
    :: (string, nat, unit, nat) collaborator"
  have h1: "ytt_list ?one VIDEO_ID = Inr (Yield 7 Exhausted) \<and> failure (Yield 7 Exhausted :: (string, nat) transcript_seq) = None
      \<and> length (items (Yield 7 Exhausted :: (string, nat) transcript_seq)) = 1"
    by (simp add: scripted_def)
  have h2: "ytt_list ?two VIDEO_ID = Inr (Yield 7 (Yield 8 Exhausted))
      \<and> failure (Yield 7 (Yield 8 Exhausted) :: (string, nat) transcript_seq) = None
      \<and> length (items (Yield 7 (Yield 8 Exhausted) :: (string, nat) transcript_seq)) \<noteq> 1"
    by (simp add: scripted_def)
  show ?thesis
    using C1_singleton_selection [of "[7]" ?one "Yield 7 Exhausted" fresh]
      C1_singleton_selection [of "[]" ?two "Yield 7 (Yield 8 Exhausted)" fresh] h1 h2
    by simp
qed

text \<open>
  C3. When the list call returns and the materialised list has no element or more than
  one, the file system after the run is the file system before it: the output file is
  neither created nor modified, and the run neither opens nor writes any file.
\<close>

theorem C3_non_singleton_leaves_files:
  fixes c :: "('e, 't, 'f, 'v) collaborator"
  assumes "ytt_list c VIDEO_ID = Inr l" and "failure l = None" and "length (items l) \<noteq> 1"
  shows "files (snd (example c w)) = files w
    \<and> (\<forall>p. OpenW p \<notin> set (actions (example c) w))
    \<and> (\<forall>p s. WriteCall p s \<notin> set (actions (example c) w))"
  using assms
  by (auto simp: example_not_single actions_def actions_after_list) (simp add: after_list_def)

theorem C3_non_singleton_leaves_files_witness:
  "files (snd (example (scripted (Inr Exhausted) (Inr ()) (Inr hello_world)
       :: (string, nat, unit, nat) collaborator) stale)) = files stale
   \<and> files (snd (example (scripted (Inr Exhausted) (Inr ()) (Inr hello_world)
       :: (string, nat, unit, nat) collaborator) stale)) video_transcript_txt = Some ''old text''"
proof -
  let ?none = "scripted (Inr Exhausted) (Inr ()) (Inr hello_world)
    :: (string, nat, unit, nat) collaborator"
  have h: "ytt_list ?none VIDEO_ID = Inr Exhausted"
    "failure (Exhausted :: (string, nat) transcript_seq) = None"
    "length (items (Exhausted :: (string, nat) transcript_seq)) \<noteq> 1"
    by (simp_all add: scripted_def)
  show ?thesis
    using C3_non_singleton_leaves_files [OF h, of stale] by (simp add: stale_def)
qed

text \<open>
  C9. When the fetch of the selected transcript raises, or the conversion of the fetched
  transcript to raw data raises, the run ends with that failure before any file is opened:
  the file system is unchanged.
\<close>

theorem C9_failure_before_open:
  fixes c :: "('e, 't, 'f, 'v) collaborator"
  assumes "ytt_list c VIDEO_ID = Inr l" and "failure l = None" and "items l = [t]"
    and "fetch c t = Inl e \<or> (\<exists>f. fetch c t = Inr f \<and> to_raw_data c f = Inl e)"
  shows "fst (example c w) = Inl (Raised e)
    \<and> files (snd (example c w)) = files w
    \<and> (\<forall>p. OpenW p \<notin> set (actions (example c) w))"
  using assms
  by (auto simp: example_eq actions_def calls_before_save files_before_save emit_def after_list_def)

theorem C9_failure_before_open_witness:
  "fst (example (scripted (Inr (Yield 7 Exhausted)) (Inl ''RequestBlocked'') (Inr hello_world)
       :: (string, nat, unit, nat) collaborator) stale) = Inl (Raised ''RequestBlocked'')
   \<and> files (snd (example (scripted (Inr (Yield 7 Exhausted)) (Inl ''RequestBlocked'') (Inr hello_world)
       :: (string, nat, unit, nat) collaborator) stale)) video_transcript_txt = Some ''old text''
   \<and> fst (example (scripted (Inr (Yield 7 Exhausted)) (Inr ()) (Inl ''ParseError'')
       :: (string, nat, unit, nat) collaborator) stale) = Inl (Raised ''ParseError'')
   \<and> files (snd (example (scripted (Inr (Yield 7 Exhausted)) (Inr ()) (Inl ''ParseError'')
       :: (string, nat, unit, nat) collaborator) stale)) video_transcript_txt = Some ''old text''"
proof -
  let ?l = "Yield 7 Exhausted :: (string, nat) transcript_seq"
  let ?a = "scripted (Inr ?l) (Inl ''RequestBlocked'') (Inr hello_world)
    :: (string, nat, unit, nat) collaborator"
  let ?b = "scripted (Inr ?l) (Inr ()) (Inl ''ParseError'')
    :: (string, nat, unit, nat) collaborator"
  have ha: "ytt_list ?a VIDEO_ID = Inr ?l" "failure ?l = None" "items ?l = [7]"
    "fetch ?a 7 = Inl ''RequestBlocked'' \<or> (\<exists>f. fetch ?a 7 = Inr f \<and> to_raw_data ?a f = Inl ''RequestBlocked'')"
    by (simp_all add: scripted_def)
  have hb: "ytt_list ?b VIDEO_ID = Inr ?l" "failure ?l = None" "items ?l = [7]"
    "fetch ?b 7 = Inl ''ParseError'' \<or> (\<exists>f. fetch ?b 7 = Inr f \<and> to_raw_data ?b f = Inl ''ParseError'')"
    by (simp_all add: scripted_def)
  show ?thesis
    using C9_failure_before_open [OF ha, of stale] C9_failure_before_open [OF hb, of stale]
    by (simp add: stale_def)
qed

text \<open>
  C2. For a video with exactly one transcript whose fetched caption entries carry the
  texts \<open>Hello\<close> and \<open>world\<close>, the run ends normally, the output file holds exactly
  \<open>Hello world\<close>, and this is the only write of the run.
\<close>

theorem C2_hello_world:
  fixes c :: "('e, 't, 'f, 'v) collaborator"
  assumes "ytt_list c VIDEO_ID = Inr l" and "failure l = None" and "items l = [t]"
    and "fetch c t = Inr f" and "to_raw_data c f = Inr [e1, e2]"
    and "e1 ''text'' = Some (PyStr ''Hello'')" and "e2 ''text'' = Some (PyStr ''world'')"
  shows "fst (example c w) = Inr ()
    \<and> files (snd (example c w)) video_transcript_txt = Some ''Hello world''
    \<and> filter (\<lambda>ev. case ev of WriteCall p s \<Rightarrow> True | _ \<Rightarrow> False) (actions (example c) w)
        = [WriteCall video_transcript_txt ''Hello world'']"
proof -
  have "carries [e1, e2] [''Hello'', ''world'']"
    using assms(6,7) by (simp add: carries_def)
  then have "save [e1, e2] (before_save l t w) =
     (Inr () :: 'e exn + unit, (before_save l t w)\<lparr>files := (files (before_save l t w))(video_transcript_txt \<mapsto> spaced [''Hello'', ''world'']),
               calls := calls (before_save l t w) @ [OpenW video_transcript_txt,
                 WriteCall video_transcript_txt (spaced [''Hello'', ''world'']), CloseCall video_transcript_txt]\<rparr>)"
    by (rule save_carries)
  moreover have "spaced [''Hello'', ''world''] = ''Hello world''"
    by (simp add: spaced_def)
  ultimately show ?thesis
    using assms(1-5)
    by (simp add: example_single_fetched actions_def calls_before_save)
qed

theorem C2_hello_world_witness:
  "fst (example (scripted (Inr (Yield 7 Exhausted)) (Inr ()) (Inr hello_world)
       :: (string, nat, unit, nat) collaborator) fresh) = Inr ()
   \<and> files (snd (example (scripted (Inr (Yield 7 Exhausted)) (Inr ()) (Inr hello_world)
       :: (string, nat, unit, nat) collaborator) fresh)) video_transcript_txt = Some ''Hello world''"
proof -
  let ?l = "Yield 7 Exhausted :: (string, nat) transcript_seq"
  let ?c = "scripted (Inr ?l) (Inr ()) (Inr hello_world) :: (string, nat, unit, nat) collaborator"
  have h: "ytt_list ?c VIDEO_ID = Inr ?l" "failure ?l = None" "items ?l = [7]"
    "fetch ?c 7 = Inr ()"
    "to_raw_data ?c () = Inr [hello_world ! 0, hello_world ! 1]"
    "(hello_world ! 0) ''text'' = Some (PyStr ''Hello'')"
    "(hello_world ! 1) ''text'' = Some (PyStr ''world'')"
    by (simp_all add: scripted_def hello_world_def)
  show ?thesis
    using C2_hello_world [OF h, of fresh] by simp
qed

text \<open>
  C4. For every sequence of caption entries that carry texts \<open>ts\<close>, the run writes
  exactly once, and what it writes (and the file then holds) is the texts in sequence
  order with one space at each boundary: the text has the length of all texts plus one
  per boundary, the \<open>i\<close>-th text stands unaltered at its offset (empty texts and texts
  with inner blanks included), the character before each text but the first is a space,
  and nothing follows the last text.
\<close>

theorem C4_join_single_spaces:
  fixes c :: "('e, 't, 'f, 'v) collaborator"
  assumes "ytt_list c VIDEO_ID = Inr l" and "failure l = None" and "items l = [t]"
    and "fetch c t = Inr f" and "to_raw_data c f = Inr es" and "carries es ts"
  shows "files (snd (example c w)) video_transcript_txt = Some (spaced ts)
    \<and> actions (example c) w =
        [ListCall VIDEO_ID, Enumerated t, FetchCall t, ToRawDataCall, OpenW video_transcript_txt,
         WriteCall video_transcript_txt (spaced ts), CloseCall video_transcript_txt]
    \<and> length (spaced ts) = sum_list (map length ts) + (length ts - 1)
    \<and> (\<forall>i<length ts. take (length (ts ! i)) (drop (offset ts i) (spaced ts)) = ts ! i)
    \<and> (\<forall>i<length ts. 0 < i \<longrightarrow> spaced ts ! (offset ts i - 1) = CHR '' '')"
proof -
  have run: "example c w = save es (before_save l t w)"
    using assms(1-5) by (rule example_single_fetched)
  have "files (snd (example c w)) video_transcript_txt = Some (spaced ts)"
    by (simp add: run save_carries [OF assms(6)])
  moreover have "actions (example c) w =
        [ListCall VIDEO_ID, Enumerated t, FetchCall t, ToRawDataCall, OpenW video_transcript_txt,
         WriteCall video_transcript_txt (spaced ts), CloseCall video_transcript_txt]"
    by (simp add: run save_carries [OF assms(6)] actions_def calls_before_save assms(3))
  ultimately show ?thesis
    using length_spaced [of ts] text_at_offset [of _ ts] space_before_offset [of _ ts]
    by blast
qed

theorem C4_join_single_spaces_witness:
  "files (snd (example (scripted (Inr (Yield 7 Exhausted)) (Inr ())
        (Inr [[''text'' \<mapsto> PyStr ''a  b''], [''text'' \<mapsto> PyStr ''''], [''text'' \<mapsto> PyStr '' c '']])
       :: (string, nat, unit, nat) collaborator) stale)) video_transcript_txt = Some ''a  b   c ''
   \<and> spaced [''a  b'', '''', '' c ''] = ''a  b   c ''
   \<and> length (''a  b   c '') = 9"
proof -
  let ?l = "Yield 7 Exhausted :: (string, nat) transcript_seq"
  let ?es = "[[''text'' \<mapsto> PyStr ''a  b''], [''text'' \<mapsto> PyStr ''''], [''text'' \<mapsto> PyStr '' c '']] :: nat entry list"
  let ?c = "scripted (Inr ?l) (Inr ()) (Inr ?es) :: (string, nat, unit, nat) collaborator"
  have h: "ytt_list ?c VIDEO_ID = Inr ?l" "failure ?l = None" "items ?l = [7]"
    "fetch ?c 7 = Inr ()" "to_raw_data ?c () = Inr ?es"
    "carries ?es [''a  b'', '''', '' c '']"
    by (simp_all add: scripted_def carries_def)
  show ?thesis
    using C4_join_single_spaces [OF h, of stale] by (simp add: spaced_def)
qed

text \<open>
  C5. Running the script twice in a row against the same answers of the collaborator, in
  the single-transcript case, leaves the same files after the second run as after the
  first; after either run the output file holds exactly the joined text, whatever it held
  before: the write replaces the content and never appends to it.
\<close>

theorem C5_rerun_overwrites:
  fixes c :: "('e, 't, 'f, 'v) collaborator"
  assumes "ytt_list c VIDEO_ID = Inr l" and "failure l = None" and "items l = [t]"
    and "fetch c t = Inr f" and "to_raw_data c f = Inr es" and "carries es ts"
  shows "files (snd (example c (snd (example c w)))) = files (snd (example c w))
    \<and> files (snd (example c w)) video_transcript_txt = Some (spaced ts)
    \<and> files (snd (example c (snd (example c w)))) video_transcript_txt = Some (spaced ts)"
proof -
  have run: "example c w = save es (before_save l t w)" for w
    using assms(1-5) by (rule example_single_fetched)
  show ?thesis
    by (simp add: run save_carries [OF assms(6)] files_before_save)
qed

theorem C5_rerun_overwrites_witness:
  "files (snd (example (scripted (Inr (Yield 7 Exhausted)) (Inr ()) (Inr hello_world)
       :: (string, nat, unit, nat) collaborator) stale)) video_transcript_txt = Some ''Hello world''
   \<and> files (snd (example (scripted (Inr (Yield 7 Exhausted)) (Inr ()) (Inr hello_world)
         :: (string, nat, unit, nat) collaborator)
       (snd (example (scripted (Inr (Yield 7 Exhausted)) (Inr ()) (Inr hello_world)
         :: (string, nat, unit, nat) collaborator) stale)))) video_transcript_txt = Some ''Hello world''"
proof -
  let ?l = "Yield 7 Exhausted :: (string, nat) transcript_seq"
  let ?c = "scripted (Inr ?l) (Inr ()) (Inr hello_world) :: (string, nat, unit, nat) collaborator"
  have h: "ytt_list ?c VIDEO_ID = Inr ?l" "failure ?l = None" "items ?l = [7]"
    "fetch ?c 7 = Inr ()" "to_raw_data ?c () = Inr hello_world"
    "carries hello_world [''Hello'', ''world'']"
    by (simp_all add: scripted_def carries_def hello_world_def)
  show ?thesis
    using C5_rerun_overwrites [OF h, of stale] by (simp add: spaced_def)
qed

text \<open>
  C6. The script catches nothing. Whatever failure the collaborator raises (in the list
  call, while the sequence is enumerated, in the fetch, or in the conversion to raw data),
  the run ends with exactly that failure, and the failing call is its last action.
\<close>

theorem C6_failures_propagate:
  fixes c :: "('e, 't, 'f, 'v) collaborator"
  shows "(ytt_list c VIDEO_ID = Inl e \<longrightarrow>
            fst (example c w) = Inl (Raised e) \<and> actions (example c) w = [ListCall VIDEO_ID])
    \<and> (ytt_list c VIDEO_ID = Inr l \<and> failure l = Some e \<longrightarrow>
            fst (example c w) = Inl (Raised e) \<and>
            actions (example c) w = ListCall VIDEO_ID # map Enumerated (items l))
    \<and> (ytt_list c VIDEO_ID = Inr l \<and> failure l = None \<and> items l = [t] \<and> fetch c t = Inl e \<longrightarrow>
            fst (example c w) = Inl (Raised e) \<and>
            actions (example c) w = [ListCall VIDEO_ID, Enumerated t, FetchCall t])
    \<and> (ytt_list c VIDEO_ID = Inr l \<and> failure l = None \<and> items l = [t] \<and> fetch c t = Inr f \<and>
         to_raw_data c f = Inl e \<longrightarrow>
            fst (example c w) = Inl (Raised e) \<and>
            actions (example c) w = [ListCall VIDEO_ID, Enumerated t, FetchCall t, ToRawDataCall])"
  by (simp add: example_eq actions_def calls_before_save emit_def after_list_def)

theorem C6_failures_propagate_witness:
  "fst (example (scripted (Inl ''TranscriptsDisabled'') (Inr ()) (Inr hello_world)
       :: (string, nat, unit, nat) collaborator) fresh) = Inl (Raised ''TranscriptsDisabled'')
   \<and> fst (example (scripted (Inr (Yield 7 (Fails ''ConnectionReset''))) (Inr ()) (Inr hello_world)
       :: (string, nat, unit, nat) collaborator) fresh) = Inl (Raised ''ConnectionReset'')
   \<and> fst (example (scripted (Inr (Yield 7 Exhausted)) (Inl ''RequestBlocked'') (Inr hello_world)
       :: (string, nat, unit, nat) collaborator) fresh) = Inl (Raised ''RequestBlocked'')
   \<and> fst (example (scripted (Inr (Yield 7 Exhausted)) (Inr ()) (Inl ''ParseError'')
       :: (string, nat, unit, nat) collaborator) fresh) = Inl (Raised ''ParseError'')"
proof -
  let ?a = "scripted (Inl ''TranscriptsDisabled'') (Inr ()) (Inr hello_world)
    :: (string, nat, unit, nat) collaborator"
  let ?lb = "Yield 7 (Fails ''ConnectionReset'') :: (string, nat) transcript_seq"
  let ?b = "scripted (Inr ?lb) (Inr ()) (Inr hello_world) :: (string, nat, unit, nat) collaborator"
  let ?l = "Yield 7 Exhausted :: (string, nat) transcript_seq"
  let ?c = "scripted (Inr ?l) (Inl ''RequestBlocked'') (Inr hello_world)
    :: (string, nat, unit, nat) collaborator"
  let ?d = "scripted (Inr ?l) (Inr ()) (Inl ''ParseError'') :: (string, nat, unit, nat) collaborator"
  have ha: "ytt_list ?a VIDEO_ID = Inl ''TranscriptsDisabled''"
    by (simp add: scripted_def)
  have hb: "ytt_list ?b VIDEO_ID = Inr ?lb \<and> failure ?lb = Some ''ConnectionReset''"
    by (simp add: scripted_def)
  have hc: "ytt_list ?c VIDEO_ID = Inr ?l \<and> failure ?l = None \<and> items ?l = [7] \<and>
      fetch ?c 7 = Inl ''RequestBlocked''"
    by (simp add: scripted_def)
  have hd: "ytt_list ?d VIDEO_ID = Inr ?l \<and> failure ?l = None \<and> items ?l = [7] \<and>
      fetch ?d 7 = Inr () \<and> to_raw_data ?d () = Inl ''ParseError''"
    by (simp add: scripted_def)
  show ?thesis
    using C6_failures_propagate [of ?a "''TranscriptsDisabled''" fresh] ha
      C6_failures_propagate [of ?b "''ConnectionReset''" fresh ?lb] hb
      C6_failures_propagate [of ?c "''RequestBlocked''" fresh ?l 7] hc
      C6_failures_propagate [of ?d "''ParseError''" fresh ?l 7 "()"] hd
    by simp
qed

text \<open>
  C7. In every run in which the list call returns, the log of the run starts with the
  list call followed by the enumeration of every element of the sequence, each exactly
  once and in order; no enumeration happens after that, and a fetch happens only when the
  materialised list is the singleton of the fetched transcript. So the sequence is
  consumed whole before the outcome of the length test shows in any action.
\<close>

theorem C7_materialised_before_selection:
  fixes c :: "('e, 't, 'f, 'v) collaborator"
  assumes "ytt_list c VIDEO_ID = Inr l"
  shows "take (Suc (length (items l))) (actions (example c) w) = ListCall VIDEO_ID # map Enumerated (items l)
    \<and> (\<forall>x. Enumerated x \<notin> set (drop (Suc (length (items l))) (actions (example c) w)))
    \<and> (\<forall>x. FetchCall x \<in> set (actions (example c) w) \<longrightarrow> failure l = None \<and> items l = [x])"
proof (cases "failure l")
  case (Some e)
  with assms show ?thesis
    by (auto simp: example_eq actions_def after_list_def)
next
  case None
  note ok = this
  show ?thesis
  proof (cases "length (items l) = 1")
    case False
    with assms ok show ?thesis
      by (auto simp: example_not_single actions_def after_list_def)
  next
    case True
    then obtain t where t: "items l = [t]"
      by (cases "items l"; cases "tl (items l)") auto
    show ?thesis
    proof (cases "fetch c t")
      case (Inl e)
      with assms ok t show ?thesis
        by (auto simp: example_eq actions_def after_list_def emit_def)
    next
      case (Inr f)
      note f = this
      show ?thesis
      proof (cases "to_raw_data c f")
        case (Inl e)
        with assms ok t f show ?thesis
          by (auto simp: example_eq actions_def calls_before_save)
      next
        case (Inr es)
        obtain evs where
          evs: "calls (snd (save es (before_save l t w) :: ('e exn + unit) \<times> 't world)) =
             calls (before_save l t w) @ OpenW video_transcript_txt # evs"
            "\<forall>x. Enumerated x \<notin> set evs" "\<forall>x. FetchCall x \<notin> set evs"
          using calls_save_extends [of es "before_save l t w"] by blast
        from assms ok t f Inr have "example c w = save es (before_save l t w)"
          by (rule example_single_fetched)
        with evs t ok show ?thesis
          by (auto simp: actions_def calls_before_save)
      qed
    qed
  qed
qed

theorem C7_materialised_before_selection_witness:
  "take (Suc (length [7::nat])) (actions (example (scripted (Inr (Yield 7 Exhausted)) (Inr ()) (Inr hello_world)
       :: (string, nat, unit, nat) collaborator)) fresh) = [ListCall VIDEO_ID, Enumerated 7]
   \<and> drop (Suc (length [7::nat])) (actions (example (scripted (Inr (Yield 7 Exhausted)) (Inr ()) (Inr hello_world)
       :: (string, nat, unit, nat) collaborator)) fresh)
       = [FetchCall 7, ToRawDataCall, OpenW video_transcript_txt,
          WriteCall video_transcript_txt ''Hello world'', CloseCall video_transcript_txt]
   \<and> FetchCall 7 \<in> set (actions (example (scripted (Inr (Yield 7 Exhausted)) (Inr ()) (Inr hello_world)
       :: (string, nat, unit, nat) collaborator)) fresh)
   \<and> items (Yield 7 Exhausted :: (string, nat) transcript_seq) = [7]"
proof -
  let ?l = "Yield 7 Exhausted :: (string, nat) transcript_seq"
  let ?c = "scripted (Inr ?l) (Inr ()) (Inr hello_world) :: (string, nat, unit, nat) collaborator"
  have h: "ytt_list ?c VIDEO_ID = Inr ?l"
    by (simp add: scripted_def)
  have car: "carries hello_world [''Hello'', ''world'']"
    by (simp add: carries_def hello_world_def)
  have ex: "example ?c fresh = save hello_world (before_save ?l 7 fresh)"
    by (rule example_single_fetched) (simp_all add: scripted_def)
  have run: "actions (example ?c) fresh =
      [ListCall VIDEO_ID, Enumerated 7, FetchCall 7, ToRawDataCall, OpenW video_transcript_txt,
       WriteCall video_transcript_txt ''Hello world'', CloseCall video_transcript_txt]"
    by (simp add: ex save_carries [OF car] actions_def calls_before_save spaced_def)
  show ?thesis
    using C7_materialised_before_selection [OF h, of fresh] by (simp add: run)
qed




end
